theory Spec2Isabelle
  imports Main "HOL-Library.Word" "HOL-Library.Sublist"
begin

section \<open>Container utilities of the gadget tracer manager\<close>

text \<open>
  A shallow embedding of \<^verbatim>\<open>pkg/gadgettracermanager/containerutils/containerutils.go\<close>.
  Go strings are byte strings (\<^typ>\<open>string\<close>); a Go function returning
  \<^verbatim>\<open>(T, error)\<close> returns a pair whose last component is \<^typ>\<open>'e option\<close>,
  \<^term>\<open>None\<close> being \<^verbatim>\<open>nil\<close>, so that the value returned next to an error is
  part of the model. Everything outside the process (the kernel, the proc file system, the
  docker command line, the CRI sockets) is an explicit argument.
\<close>

subsection \<open>Errors\<close>

text \<open>
  The errors of \<^verbatim>\<open>encoding/json\<close> and \<^verbatim>\<open>strconv\<close>: a syntax error, found
  before anything is stored, and a type error (JSON value, Go type), found while storing.
\<close>

datatype json_error = SyntaxError | UnmarshalTypeError string string

datatype num_error = ErrSyntax | ErrRange

text \<open>
  One constructor for each \<^verbatim>\<open>fmt.Errorf\<close> of the file, named after the error kind
  of the design, and one for each foreign error that is returned unchanged.
  \<^item> \<open>LookupFailed p\<close> is \<^verbatim>\<open>GetCgroupID on %q failed\<close>;
  \<^item> \<open>NotFound e\<close> is \<^verbatim>\<open>cannot parse cgroup: %v\<close>;
  \<^item> \<open>NoCgroup\<close> is \<^verbatim>\<open>cannot find cgroup path in /proc/PID/cgroup\<close>;
  \<^item> \<open>InvalidOutput\<close> is \<^verbatim>\<open>invalid output\<close>;
  \<^item> \<open>MissingField f\<close> is \<^verbatim>\<open>container status reply from runtime doesn't contain 'f'\<close>;
  \<^item> \<open>InvalidPid\<close> is \<^verbatim>\<open>invalid pid\<close>;
  \<^item> \<open>UnknownRuntime c\<close> is \<^verbatim>\<open>unknown container runtime: %s\<close>;
  \<^item> \<open>UnparseableNoMatch ms e buf\<close> is
    \<^verbatim>\<open>cannot parse OCI state: matches=%+v\n %v\n%s\n\<close>;
  \<^item> \<open>UnparseableState e buf\<close> is \<^verbatim>\<open>cannot parse OCI state: %v\n%s\n\<close>.
\<close>

datatype error =
    LookupFailed string
  | NotFound string
  | NoCgroup
  | InvalidOutput
  | MissingField string
  | InvalidPid
  | UnknownRuntime string
  | UnparseableNoMatch "string list" json_error string
  | UnparseableState json_error string
  | ExecError string
  | RpcError string
  | JsonError json_error
  | AtoiError num_error

subsection \<open>The cgroup id of a path\<close>

text \<open>
  \<^verbatim>\<open>struct cgid_file_handle\<close> and the kernel: \<open>name_to_handle_at\<close> takes the path
  and the handle as the caller filled it and gives the return value of the system call and
  the handle as the kernel left it; \<open>malloc_ok\<close> tells whether \<^verbatim>\<open>malloc\<close> gave
  memory.
\<close>

record cgid_file_handle =
  handle_bytes :: "32 word"
  handle_type :: "32 word"
  cgid :: "64 word"

record kernel =
  malloc_ok :: bool
  malloc_handle :: cgid_file_handle
  name_to_handle_at :: "string \<Rightarrow> cgid_file_handle \<Rightarrow> int \<times> cgid_file_handle"

text \<open>\<^verbatim>\<open>C.CString\<close>: the C side sees the bytes before the first NUL.\<close>

definition CString :: "string \<Rightarrow> string" where
  "CString s = takeWhile (\<lambda>c. c \<noteq> CHR 0x00) s"

definition get_cgroupid :: "kernel \<Rightarrow> string \<Rightarrow> 64 word" where
  "get_cgroupid k path =
     (if \<not> malloc_ok k then 0
      else
        let h = (malloc_handle k)\<lparr>handle_bytes := 8\<rparr>;
            (err, h') = name_to_handle_at k path h
        in if err \<noteq> 0 then 0
           else if handle_bytes h' \<noteq> 8 then 0
           else cgid h')"

definition GetCgroupID :: "kernel \<Rightarrow> string \<Rightarrow> 64 word \<times> error option" where
  "GetCgroupID k pathWithMountpoint =
     (let ret = get_cgroupid k (CString pathWithMountpoint)
      in if ret = 0 then (0, Some (LookupFailed pathWithMountpoint))
         else (ret, None))"

subsection \<open>Strings\<close>

text \<open>\<^verbatim>\<open>strings.HasPrefix\<close>, \<^verbatim>\<open>HasSuffix\<close>, \<^verbatim>\<open>TrimPrefix\<close> and \<^verbatim>\<open>TrimSuffix\<close>.\<close>

definition HasPrefix :: "string \<Rightarrow> string \<Rightarrow> bool" where
  "HasPrefix s pre = (length pre \<le> length s \<and> take (length pre) s = pre)"

definition HasSuffix :: "string \<Rightarrow> string \<Rightarrow> bool" where
  "HasSuffix s suf = (length suf \<le> length s \<and> drop (length s - length suf) s = suf)"

definition TrimPrefix :: "string \<Rightarrow> string \<Rightarrow> string" where
  "TrimPrefix s pre = (if HasPrefix s pre then drop (length pre) s else s)"

definition TrimSuffix :: "string \<Rightarrow> string \<Rightarrow> string" where
  "TrimSuffix s suf = (if HasSuffix s suf then take (length s - length suf) s else s)"

text \<open>\<^verbatim>\<open>fmt.Sprintf("%d", i)\<close>: the decimal digits, after a minus sign when negative.\<close>

fun digits :: "nat \<Rightarrow> string" where
  "digits n =
     (if n < 10 then [''0123456789'' ! n]
      else digits (n div 10) @ [''0123456789'' ! (n mod 10)])"

definition Sprintf_d :: "int \<Rightarrow> string" where
  "Sprintf_d i = (if i < 0 then CHR ''-'' # digits (nat (- i)) else digits (nat i))"

subsection \<open>The cgroup paths of a process\<close>

text \<open>
  \<^verbatim>\<open>reader.ReadString('\n')\<close> on the unread part of the file: the line up to and with
  the first newline, and what is left; \<^term>\<open>None\<close> when there is no newline left, where
  Go returns an error (end of file, or a failed read) and the loop breaks.
\<close>

fun ReadString :: "string \<Rightarrow> (string \<times> string) option" where
  "ReadString [] = None"
| "ReadString (c # cs) =
     (if c = CHR 0x0A then Some ([c], cs)
      else case ReadString cs of
             None \<Rightarrow> None
           | Some (line, rest) \<Rightarrow> Some (c # line, rest))"

lemma ReadString_shorter: "ReadString r = Some (line, rest) \<Longrightarrow> length rest < length r"
  by (induction r arbitrary: line rest) (auto split: if_splits option.splits)

text \<open>The lines the loop of \<open>GetCgroupPaths\<close> reads, in order.\<close>

function ReadLines :: "string \<Rightarrow> string list" where
  "ReadLines r =
     (case ReadString r of None \<Rightarrow> [] | Some (line, rest) \<Rightarrow> line # ReadLines rest)"
  by pat_completeness auto
termination
  by (relation "measure length") (auto dest: ReadString_shorter)

text \<open>
  The \<^verbatim>\<open>for\<close> loop of \<open>GetCgroupPaths\<close>, on the unread part of the file and the two
  variables it assigns.
\<close>

function cgroup_scan :: "string \<Rightarrow> string \<Rightarrow> string \<Rightarrow> string \<times> string" where
  "cgroup_scan reader cgroupPathV1 cgroupPathV2 =
     (case ReadString reader of
        None \<Rightarrow> (cgroupPathV1, cgroupPathV2)
      | Some (line, rest) \<Rightarrow>
          if HasPrefix line ''1:name=systemd:'' then
            cgroup_scan rest
              (TrimSuffix (TrimPrefix line ''1:name=systemd:'') [CHR 0x0A]) cgroupPathV2
          else if HasPrefix line ''0::'' then
            cgroup_scan rest
              cgroupPathV1 (TrimSuffix (TrimPrefix line ''0::'') [CHR 0x0A])
          else cgroup_scan rest cgroupPathV1 cgroupPathV2)"
  by pat_completeness auto
termination
  by (relation "measure (\<lambda>(r, _, _). length r)") (auto dest: ReadString_shorter)

declare ReadLines.simps [simp del] cgroup_scan.simps [simp del] digits.simps [simp del]

text \<open>
  \<open>os_Open\<close> is the proc file system: the error of \<^verbatim>\<open>os.Open\<close>, or, for a file
  that is opened, the bytes the reader gives before the end of the file or a failed read
  (none at all when the first read fails). The path is
  \<^verbatim>\<open>filepath.Join("/proc", fmt.Sprintf("%d", pid), "cgroup")\<close>.
\<close>

definition GetCgroupPaths ::
  "(string \<Rightarrow> string + string) \<Rightarrow> int \<Rightarrow> string \<times> string \<times> error option" where
  "GetCgroupPaths os_Open pid =
     (case os_Open (''/proc/'' @ Sprintf_d pid @ ''/cgroup'') of
        Inl err \<Rightarrow> ('''', '''', Some (NotFound err))
      | Inr cgroupFile \<Rightarrow>
          let (cgroupPathV1, cgroupPathV2) = cgroup_scan cgroupFile '''' '''';
              cgroupPathV1 = (if cgroupPathV1 = ''/'' then '''' else cgroupPathV1);
              cgroupPathV2 = (if cgroupPathV2 = ''/'' then '''' else cgroupPathV2)
          in if cgroupPathV2 = '''' \<and> cgroupPathV1 = '''' then ('''', '''', Some NoCgroup)
             else (cgroupPathV1, cgroupPathV2, None))"

subsection \<open>JSON texts\<close>

text \<open>
  A model of \<^verbatim>\<open>encoding/json\<close>: \<^verbatim>\<open>json.Unmarshal\<close> first checks that the whole text
  is one JSON value (and stores nothing when it is not), then stores the value into the Go
  variable. A JSON text is read in two steps, bytes to tokens and tokens to a value; a
  number keeps its literal, a string is held decoded. Arrays and objects may be nested to
  any depth, as in the Go releases before 1.15; later releases refuse a nesting deeper
  than 10000.
\<close>

datatype json =
    JNull
  | JBool bool
  | JNumber string
  | JString string
  | JArray "json list"
  | JObject "(string \<times> json) list"

datatype token =
    TLBrace | TRBrace | TLBracket | TRBracket | TColon | TComma
  | TString string
  | TNumber string
  | TLiteral json

definition byte :: "char \<Rightarrow> nat" where
  "byte c = of_char c"

definition isDigit :: "char \<Rightarrow> bool" where
  "isDigit c = (c \<in> set ''0123456789'')"

definition isSpace :: "char \<Rightarrow> bool" where
  "isSpace c = (c = CHR '' '' \<or> c = CHR 0x09 \<or> c = CHR 0x0D \<or> c = CHR 0x0A)"

definition digitVal :: "char \<Rightarrow> int" where
  "digitVal c = int (byte c) - 48"

paragraph \<open>Numbers\<close>

text \<open>
  The number grammar of the scanner: an optional minus sign, \<^verbatim>\<open>0\<close> or a digit from 1
  to 9 and more digits, an optional fraction, an optional exponent.
\<close>

definition digits1 :: "string \<Rightarrow> bool" where
  "digits1 s = (s \<noteq> [] \<and> list_all isDigit s)"

definition number_exp :: "string \<Rightarrow> bool" where
  "number_exp s =
     (case s of
        [] \<Rightarrow> True
      | e # r \<Rightarrow>
          (e = CHR ''e'' \<or> e = CHR ''E'') \<and>
          (case r of
             [] \<Rightarrow> False
           | g # r' \<Rightarrow> if g = CHR ''+'' \<or> g = CHR ''-'' then digits1 r' else digits1 r))"

definition number_frac :: "string \<Rightarrow> bool" where
  "number_frac s =
     (case s of
        [] \<Rightarrow> True
      | d # r \<Rightarrow>
          if d = CHR ''.'' then
            takeWhile isDigit r \<noteq> [] \<and> number_exp (dropWhile isDigit r)
          else number_exp s)"

definition number_int :: "string \<Rightarrow> bool" where
  "number_int s =
     (case s of
        [] \<Rightarrow> False
      | d # r \<Rightarrow>
          if d = CHR ''0'' then number_frac r
          else isDigit d \<and> number_frac (dropWhile isDigit r))"

definition validNumber :: "string \<Rightarrow> bool" where
  "validNumber s =
     (case s of
        [] \<Rightarrow> False
      | c # r \<Rightarrow> if c = CHR ''-'' then number_int r else number_int s)"

definition isNumberChar :: "char \<Rightarrow> bool" where
  "isNumberChar c = (isDigit c \<or> c \<in> set ''+-.eE'')"

paragraph \<open>Strings\<close>

text \<open>\<^verbatim>\<open>utf8.EncodeRune\<close>; a surrogate or a value above 0x10FFFF is stored as U+FFFD.\<close>

definition EncodeRune :: "nat \<Rightarrow> string" where
  "EncodeRune r =
     (if r < 0x80 then [char_of r]
      else if r < 0x800 then [char_of (0xC0 + r div 64), char_of (0x80 + r mod 64)]
      else if (0xD800 \<le> r \<and> r < 0xE000) \<or> 0x10FFFF < r then
        [CHR 0xEF, CHR 0xBF, CHR 0xBD]
      else if r < 0x10000 then
        [char_of (0xE0 + r div 4096), char_of (0x80 + r div 64 mod 64),
         char_of (0x80 + r mod 64)]
      else
        [char_of (0xF0 + r div 262144), char_of (0x80 + r div 4096 mod 64),
         char_of (0x80 + r div 64 mod 64), char_of (0x80 + r mod 64)])"

text \<open>
  The width that \<^verbatim>\<open>utf8.DecodeRune\<close> gives for the bytes at the head of a string
  whose first byte is not ASCII: 2 to 4 for a well-formed encoding, and 0 here where Go
  gives the error rune of width 1.
\<close>

definition isCont :: "nat \<Rightarrow> bool" where
  "isCont b = (0x80 \<le> b \<and> b \<le> 0xBF)"

definition runeWidth :: "nat list \<Rightarrow> nat" where
  "runeWidth bs =
     (case bs of
        [] \<Rightarrow> 0
      | a # r \<Rightarrow>
          if 0xC2 \<le> a \<and> a \<le> 0xDF then
            (case r of b # _ \<Rightarrow> if isCont b then 2 else 0 | _ \<Rightarrow> 0)
          else if 0xE0 \<le> a \<and> a \<le> 0xEF then
            (case r of
               b # c # _ \<Rightarrow>
                 if (if a = 0xE0 then 0xA0 else 0x80) \<le> b
                    \<and> b \<le> (if a = 0xED then 0x9F else 0xBF) \<and> isCont c
                 then 3 else 0
             | _ \<Rightarrow> 0)
          else if 0xF0 \<le> a \<and> a \<le> 0xF4 then
            (case r of
               b # c # d # _ \<Rightarrow>
                 if (if a = 0xF0 then 0x90 else 0x80) \<le> b
                    \<and> b \<le> (if a = 0xF4 then 0x8F else 0xBF) \<and> isCont c \<and> isCont d
                 then 4 else 0
             | _ \<Rightarrow> 0)
          else 0)"

text \<open>\<^verbatim>\<open>getu4\<close>: the value of \<^verbatim>\<open>\uXXXX\<close> at the head of a string, if it is there.\<close>

definition hexVal :: "char \<Rightarrow> nat option" where
  "hexVal c =
     (if isDigit c then Some (byte c - 48)
      else if c \<in> set ''abcdef'' then Some (byte c - 87)
      else if c \<in> set ''ABCDEF'' then Some (byte c - 55)
      else None)"

definition getu4 :: "string \<Rightarrow> nat option" where
  "getu4 s =
     (case s of
        b # u # h1 # h2 # h3 # h4 # _ \<Rightarrow>
          if b = CHR 0x5C \<and> u = CHR ''u'' then
            (case (hexVal h1, hexVal h2, hexVal h3, hexVal h4) of
               (Some a, Some b, Some c, Some d) \<Rightarrow> Some (((a * 16 + b) * 16 + c) * 16 + d)
             | _ \<Rightarrow> None)
          else None
      | _ \<Rightarrow> None)"

definition simpleEscape :: "char \<Rightarrow> char option" where
  "simpleEscape e =
     (if e = CHR 0x22 \<or> e = CHR 0x5C \<or> e = CHR ''/'' then Some e
      else if e = CHR ''b'' then Some (CHR 0x08)
      else if e = CHR ''f'' then Some (CHR 0x0C)
      else if e = CHR ''n'' then Some (CHR 0x0A)
      else if e = CHR ''r'' then Some (CHR 0x0D)
      else if e = CHR ''t'' then Some (CHR 0x09)
      else None)"

text \<open>
  \<^verbatim>\<open>unquote\<close>, on the bytes between the quotes: \<^term>\<open>None\<close> for what the scanner
  refuses (a control character, a quote, a wrong escape). A pair of surrogate escapes is
  one rune, a lone surrogate is U+FFFD, and a byte that is not part of a well-formed
  UTF-8 encoding is replaced by U+FFFD.
\<close>

function unquote :: "string \<Rightarrow> string option" where
  "unquote [] = Some []"
| "unquote (c # cs) =
     (if c = CHR 0x5C then
        (case cs of
           [] \<Rightarrow> None
         | e # r \<Rightarrow>
             if e = CHR ''u'' then
               (case getu4 (c # cs) of
                  None \<Rightarrow> None
                | Some rr \<Rightarrow>
                    if 0xD800 \<le> rr \<and> rr < 0xE000 then
                      (case getu4 (drop 4 r) of
                         None \<Rightarrow>
                           map_option ((@) (EncodeRune 0xFFFD)) (unquote (drop 4 r))
                       | Some rr1 \<Rightarrow>
                           if rr < 0xDC00 \<and> 0xDC00 \<le> rr1 \<and> rr1 < 0xE000 then
                             map_option
                               ((@) (EncodeRune
                                  ((rr - 0xD800) * 1024 + (rr1 - 0xDC00) + 0x10000)))
                               (unquote (drop 10 r))
                           else map_option ((@) (EncodeRune 0xFFFD)) (unquote (drop 4 r)))
                    else map_option ((@) (EncodeRune rr)) (unquote (drop 4 r)))
             else
               (case simpleEscape e of
                  None \<Rightarrow> None
                | Some b \<Rightarrow> map_option ((#) b) (unquote r)))
      else if c = CHR 0x22 \<or> byte c < 0x20 then None
      else if byte c < 0x80 then map_option ((#) c) (unquote cs)
      else
        (let n = runeWidth (map byte (take 4 (c # cs)))
         in if n = 0 then map_option ((@) (EncodeRune 0xFFFD)) (unquote cs)
            else map_option ((@) (take n (c # cs))) (unquote (drop (n - 1) cs))))"
  by pat_completeness auto
termination
  by (relation "measure length") auto

declare unquote.simps [simp del]

paragraph \<open>Bytes to tokens\<close>

text \<open>
  The scanner as a machine that reads one byte at a time. Its states: between tokens; in
  a string (the bytes read, last first, and whether the last byte was a backslash that
  escapes the next one); in a number (the bytes read, last first); in one of the words
  \<^verbatim>\<open>true\<close>, \<^verbatim>\<open>false\<close>, \<^verbatim>\<open>null\<close> (the bytes still to come, and the token).
\<close>

datatype lex_state =
    LValue
  | LString string bool
  | LNumber string
  | LLiteral string token

definition lex_value :: "char \<Rightarrow> (token list \<times> lex_state) option" where
  "lex_value c =
     (if isSpace c then Some ([], LValue)
      else if c = CHR ''{'' then Some ([TLBrace], LValue)
      else if c = CHR ''}'' then Some ([TRBrace], LValue)
      else if c = CHR ''['' then Some ([TLBracket], LValue)
      else if c = CHR '']'' then Some ([TRBracket], LValue)
      else if c = CHR '':'' then Some ([TColon], LValue)
      else if c = CHR '','' then Some ([TComma], LValue)
      else if c = CHR 0x22 then Some ([], LString [] False)
      else if c = CHR ''-'' \<or> isDigit c then Some ([], LNumber [c])
      else if c = CHR ''t'' then Some ([], LLiteral ''rue'' (TLiteral (JBool True)))
      else if c = CHR ''f'' then Some ([], LLiteral ''alse'' (TLiteral (JBool False)))
      else if c = CHR ''n'' then Some ([], LLiteral ''ull'' (TLiteral JNull))
      else None)"

fun lex_step :: "lex_state \<Rightarrow> char \<Rightarrow> (token list \<times> lex_state) option" where
  "lex_step LValue c = lex_value c"
| "lex_step (LString acc esc) c =
     (if esc then Some ([], LString (c # acc) False)
      else if c = CHR 0x5C then Some ([], LString (c # acc) True)
      else if c = CHR 0x22 then
        (case unquote (rev acc) of
           None \<Rightarrow> None
         | Some s \<Rightarrow> Some ([TString s], LValue))
      else Some ([], LString (c # acc) False))"
| "lex_step (LNumber acc) c =
     (if isNumberChar c then Some ([], LNumber (c # acc))
      else if validNumber (rev acc) then
        (case lex_value c of
           None \<Rightarrow> None
         | Some (ts, st) \<Rightarrow> Some (TNumber (rev acc) # ts, st))
      else None)"
| "lex_step (LLiteral rest t) c =
     (case rest of
        [] \<Rightarrow> None
      | x # xs \<Rightarrow>
          if c \<noteq> x then None
          else if xs = [] then Some ([t], LValue)
          else Some ([], LLiteral xs t))"

fun lex_end :: "lex_state \<Rightarrow> token list option" where
  "lex_end LValue = Some []"
| "lex_end (LString acc esc) = None"
| "lex_end (LNumber acc) = (if validNumber (rev acc) then Some [TNumber (rev acc)] else None)"
| "lex_end (LLiteral rest t) = None"

fun lex :: "lex_state \<Rightarrow> string \<Rightarrow> token list option" where
  "lex st [] = lex_end st"
| "lex st (c # cs) =
     (case lex_step st c of
        None \<Rightarrow> None
      | Some (ts, st') \<Rightarrow> map_option ((@) ts) (lex st' cs))"

paragraph \<open>Tokens to a value\<close>

text \<open>
  The open arrays and objects, innermost first: the elements read, last first, and for an
  object the key whose value is awaited. What may come next: a value; a value or the end
  of the array just opened; a key or the end of the object just opened; a key; a colon; a
  comma or the end of the array or object.
\<close>

datatype frame =
    FArray "json list"
  | FObject "(string \<times> json) list" "string option"

datatype expect = EValue | EValueOrEnd | EKeyOrEnd | EKey | EColon | ECommaOrEnd

datatype parse_state =
    Parsing expect "frame list"
  | Done json

fun parse_value :: "json \<Rightarrow> frame list \<Rightarrow> parse_state option" where
  "parse_value v [] = Some (Done v)"
| "parse_value v (FArray es # fs) = Some (Parsing ECommaOrEnd (FArray (v # es) # fs))"
| "parse_value v (FObject ms (Some k) # fs) =
     Some (Parsing ECommaOrEnd (FObject ((k, v) # ms) None # fs))"
| "parse_value v (FObject ms None # fs) = None"

fun parse_start :: "token \<Rightarrow> frame list \<Rightarrow> parse_state option" where
  "parse_start (TString s) fs = parse_value (JString s) fs"
| "parse_start (TNumber n) fs = parse_value (JNumber n) fs"
| "parse_start (TLiteral v) fs = parse_value v fs"
| "parse_start TLBrace fs = Some (Parsing EKeyOrEnd (FObject [] None # fs))"
| "parse_start TLBracket fs = Some (Parsing EValueOrEnd (FArray [] # fs))"
| "parse_start _ fs = None"

fun parse_key :: "token \<Rightarrow> frame list \<Rightarrow> parse_state option" where
  "parse_key (TString k) (FObject ms None # fs) = Some (Parsing EColon (FObject ms (Some k) # fs))"
| "parse_key _ _ = None"

fun parse_close :: "token \<Rightarrow> frame list \<Rightarrow> parse_state option" where
  "parse_close TRBracket (FArray es # fs) = parse_value (JArray (rev es)) fs"
| "parse_close TRBrace (FObject ms None # fs) = parse_value (JObject (rev ms)) fs"
| "parse_close _ _ = None"

fun parse_step :: "parse_state \<Rightarrow> token \<Rightarrow> parse_state option" where
  "parse_step (Done v) t = None"
| "parse_step (Parsing EValue fs) t = parse_start t fs"
| "parse_step (Parsing EValueOrEnd fs) t =
     (if t = TRBracket then parse_close t fs else parse_start t fs)"
| "parse_step (Parsing EKeyOrEnd fs) t =
     (if t = TRBrace then parse_close t fs else parse_key t fs)"
| "parse_step (Parsing EKey fs) t = parse_key t fs"
| "parse_step (Parsing EColon fs) t =
     (if t = TColon then Some (Parsing EValue fs) else None)"
| "parse_step (Parsing ECommaOrEnd fs) t =
     (if t = TComma then
        (case fs of
           FArray es # _ \<Rightarrow> Some (Parsing EValue fs)
         | FObject ms k # _ \<Rightarrow> Some (Parsing EKey fs)
         | [] \<Rightarrow> None)
      else parse_close t fs)"

fun parse_tokens :: "parse_state \<Rightarrow> token list \<Rightarrow> json option" where
  "parse_tokens (Done v) [] = Some v"
| "parse_tokens (Parsing e fs) [] = None"
| "parse_tokens st (t # ts) =
     (case parse_step st t of None \<Rightarrow> None | Some st' \<Rightarrow> parse_tokens st' ts)"

definition parse_json :: "string \<Rightarrow> json option" where
  "parse_json data =
     (case lex LValue data of
        None \<Rightarrow> None
      | Some ts \<Rightarrow> parse_tokens (Parsing EValue []) ts)"

subsection \<open>Storing JSON values into Go variables\<close>

text \<open>
  \<^verbatim>\<open>strconv.ParseInt(s, 10, 64)\<close>, which is also \<^verbatim>\<open>strconv.Atoi\<close> where
  \<^verbatim>\<open>int\<close> has 64 bits. \<open>ParseUint\<close> reads the digits from the left and stops at the
  first byte that is not a digit (a syntax error) or at the first digit that takes the
  value out of 64 bits (a range error); \<open>ParseInt\<close> takes the sign off first and checks
  the signed range last.
\<close>

fun ParseUint :: "int \<Rightarrow> string \<Rightarrow> num_error + int" where
  "ParseUint n [] = Inr n"
| "ParseUint n (c # cs) =
     (if \<not> isDigit c then Inl ErrSyntax
      else if (2 ^ 64 - 1) div 10 + 1 \<le> n then Inl ErrRange
      else if 2 ^ 64 - 1 < n * 10 + digitVal c then Inl ErrRange
      else ParseUint (n * 10 + digitVal c) cs)"

definition ParseInt :: "string \<Rightarrow> num_error + int" where
  "ParseInt s =
     (if s = [] then Inl ErrSyntax
      else
        let neg = (hd s = CHR ''-'');
            ds = (if hd s = CHR ''-'' \<or> hd s = CHR ''+'' then tl s else s)
        in if ds = [] then Inl ErrSyntax
           else
             case ParseUint 0 ds of
               Inl ErrSyntax \<Rightarrow> Inl ErrSyntax
             | Inl ErrRange \<Rightarrow> Inl ErrRange
             | Inr un \<Rightarrow>
                 if \<not> neg \<and> 2 ^ 63 \<le> un then Inl ErrRange
                 else if neg \<and> 2 ^ 63 < un then Inl ErrRange
                 else Inr (if neg then - un else un))"

definition Atoi :: "string \<Rightarrow> num_error + int" where
  "Atoi s = ParseInt s"

text \<open>
  A key of a JSON object names a field when it is the name of the field, or equal to it
  when letters are compared without case, the long s (U+017F) counts as \<^verbatim>\<open>s\<close> and
  the Kelvin sign (U+212A) as \<^verbatim>\<open>k\<close>.
\<close>

definition toUpper :: "char \<Rightarrow> char" where
  "toUpper c =
     (case map_of (zip ''abcdefghijklmnopqrstuvwxyz'' ''ABCDEFGHIJKLMNOPQRSTUVWXYZ'') c of
        None \<Rightarrow> c
      | Some u \<Rightarrow> u)"

fun foldName :: "string \<Rightarrow> string" where
  "foldName (a # b # c # r) =
     (if a = CHR 0xE2 \<and> b = CHR 0x84 \<and> c = CHR 0xAA then CHR ''K'' # foldName r
      else if a = CHR 0xC5 \<and> b = CHR 0xBF then CHR ''S'' # foldName (c # r)
      else toUpper a # foldName (b # c # r))"
| "foldName [a, b] =
     (if a = CHR 0xC5 \<and> b = CHR 0xBF then [CHR ''S''] else [toUpper a, toUpper b])"
| "foldName [a] = [toUpper a]"
| "foldName [] = []"

definition fieldMatches :: "string \<Rightarrow> string \<Rightarrow> bool" where
  "fieldMatches name key = (key = name \<or> foldName key = foldName name)"

text \<open>
  A value of the wrong kind is a type error; the decoder keeps the first one and goes on.
  \<^verbatim>\<open>null\<close> leaves a string, an integer or a struct as it is.
\<close>

definition saveError :: "json_error option \<Rightarrow> json_error \<Rightarrow> json_error option" where
  "saveError saved e = (case saved of None \<Rightarrow> Some e | Some e' \<Rightarrow> Some e')"

fun kindName :: "json \<Rightarrow> string" where
  "kindName JNull = ''null''"
| "kindName (JBool b) = ''bool''"
| "kindName (JNumber n) = ''number''"
| "kindName (JString s) = ''string''"
| "kindName (JArray es) = ''array''"
| "kindName (JObject ms) = ''object''"

fun store_string :: "json \<Rightarrow> string \<Rightarrow> json_error option \<Rightarrow> string \<times> json_error option" where
  "store_string (JString s) old err = (s, err)"
| "store_string JNull old err = (old, err)"
| "store_string v old err = (old, saveError err (UnmarshalTypeError (kindName v) ''string''))"

fun store_int :: "json \<Rightarrow> int \<Rightarrow> json_error option \<Rightarrow> int \<times> json_error option" where
  "store_int (JNumber n) old err =
     (case ParseInt n of
        Inr i \<Rightarrow> (i, err)
      | Inl e \<Rightarrow> (old, saveError err (UnmarshalTypeError (''number '' @ n) ''int'')))"
| "store_int JNull old err = (old, err)"
| "store_int v old err = (old, saveError err (UnmarshalTypeError (kindName v) ''int''))"

text \<open>
  A \<^verbatim>\<open>map[string]string\<close>, \<^term>\<open>None\<close> being the nil map: each member of the object
  is stored under its key, the empty string where its value is not a string.
\<close>

type_synonym string_map = "(string \<times> string) list option"

definition store_map_member ::
  "(string \<times> string) list \<times> json_error option \<Rightarrow> string \<times> json
     \<Rightarrow> (string \<times> string) list \<times> json_error option" where
  "store_map_member acc kv =
     (let (s, err) = store_string (snd kv) '''' (snd acc)
      in ((fst kv, s) # filter (\<lambda>e. fst e \<noteq> fst kv) (fst acc), err))"

fun store_map :: "json \<Rightarrow> string_map \<Rightarrow> json_error option \<Rightarrow> string_map \<times> json_error option" where
  "store_map (JObject ms) old err =
     (let (m, err') = foldl store_map_member (case old of None \<Rightarrow> [] | Some m \<Rightarrow> m, err) ms
      in (Some m, err'))"
| "store_map JNull old err = (None, err)"
| "store_map v old err =
     (old, saveError err (UnmarshalTypeError (kindName v) ''map[string]string''))"

text \<open>\<^verbatim>\<open>specs.State\<close> of the OCI runtime specification, with its JSON names.\<close>

record State =
  Version :: string
  ID :: string
  Status :: string
  Pid :: int
  Bundle :: string
  Annotations :: string_map

definition State0 :: State where
  "State0 = \<lparr>Version = '''', ID = '''', Status = '''', Pid = 0, Bundle = '''',
             Annotations = None\<rparr>"

definition store_State_member ::
  "State \<times> json_error option \<Rightarrow> string \<times> json \<Rightarrow> State \<times> json_error option" where
  "store_State_member acc kv =
     (let st = fst acc; err = snd acc; key = fst kv; v = snd kv
      in if fieldMatches ''ociVersion'' key then
           (let (s, e) = store_string v (Version st) err in (st\<lparr>Version := s\<rparr>, e))
         else if fieldMatches ''id'' key then
           (let (s, e) = store_string v (ID st) err in (st\<lparr>ID := s\<rparr>, e))
         else if fieldMatches ''status'' key then
           (let (s, e) = store_string v (Status st) err in (st\<lparr>Status := s\<rparr>, e))
         else if fieldMatches ''pid'' key then
           (let (i, e) = store_int v (Pid st) err in (st\<lparr>Pid := i\<rparr>, e))
         else if fieldMatches ''bundle'' key then
           (let (s, e) = store_string v (Bundle st) err in (st\<lparr>Bundle := s\<rparr>, e))
         else if fieldMatches ''annotations'' key then
           (let (m, e) = store_map v (Annotations st) err in (st\<lparr>Annotations := m\<rparr>, e))
         else (st, err))"

fun store_State :: "json \<Rightarrow> State \<Rightarrow> json_error option \<times> State" where
  "store_State (JObject ms) st =
     (let (st', err) = foldl store_State_member (st, None) ms in (err, st'))"
| "store_State JNull st = (None, st)"
| "store_State v st = (Some (UnmarshalTypeError (kindName v) ''specs.State''), st)"

text \<open>\<^verbatim>\<open>json.Unmarshal(data, ociState)\<close>: the error and the variable as it is left.\<close>

definition json_Unmarshal_State :: "string \<Rightarrow> State \<Rightarrow> json_error option \<times> State" where
  "json_Unmarshal_State data st =
     (case parse_json data of
        None \<Rightarrow> (Some SyntaxError, st)
      | Some v \<Rightarrow> store_State v st)"

text \<open>\<^verbatim>\<open>struct{ Pid int }\<close>, the type of \<open>containerdInspect\<close> and of the field \<open>State\<close>.\<close>

definition store_Pid_member ::
  "int \<times> json_error option \<Rightarrow> string \<times> json \<Rightarrow> int \<times> json_error option" where
  "store_Pid_member acc kv =
     (if fieldMatches ''Pid'' (fst kv) then store_int (snd kv) (fst acc) (snd acc) else acc)"

fun store_PidStruct :: "json \<Rightarrow> int \<Rightarrow> json_error option \<Rightarrow> int \<times> json_error option" where
  "store_PidStruct (JObject ms) old err = foldl store_Pid_member (old, err) ms"
| "store_PidStruct JNull old err = (old, err)"
| "store_PidStruct v old err =
     (old, saveError err (UnmarshalTypeError (kindName v) ''struct { Pid int }''))"

definition json_Unmarshal_Pid :: "string \<Rightarrow> json_error option \<times> int" where
  "json_Unmarshal_Pid data =
     (case parse_json data of
        None \<Rightarrow> (Some SyntaxError, 0)
      | Some v \<Rightarrow> (let (pid, err) = store_PidStruct v 0 None in (err, pid)))"

text \<open>\<^verbatim>\<open>[]DockerInspect\<close>, decoded into a nil slice.\<close>

record DockerInspect =
  State_Pid :: int

definition store_DockerInspect_member ::
  "DockerInspect \<times> json_error option \<Rightarrow> string \<times> json
     \<Rightarrow> DockerInspect \<times> json_error option" where
  "store_DockerInspect_member acc kv =
     (if fieldMatches ''State'' (fst kv) then
        (let (pid, err) = store_PidStruct (snd kv) (State_Pid (fst acc)) (snd acc)
         in ((fst acc)\<lparr>State_Pid := pid\<rparr>, err))
      else acc)"

fun store_DockerInspect ::
  "json \<Rightarrow> DockerInspect \<Rightarrow> json_error option \<Rightarrow> DockerInspect \<times> json_error option" where
  "store_DockerInspect (JObject ms) old err = foldl store_DockerInspect_member (old, err) ms"
| "store_DockerInspect JNull old err = (old, err)"
| "store_DockerInspect v old err =
     (old, saveError err (UnmarshalTypeError (kindName v) ''containerutils.DockerInspect''))"

definition store_DockerInspect_elem ::
  "DockerInspect list \<times> json_error option \<Rightarrow> json \<Rightarrow> DockerInspect list \<times> json_error option"
  where
  "store_DockerInspect_elem acc v =
     (let (d, err) = store_DockerInspect v \<lparr>State_Pid = 0\<rparr> (snd acc)
      in (fst acc @ [d], err))"

fun store_DockerInspects :: "json \<Rightarrow> json_error option \<times> DockerInspect list" where
  "store_DockerInspects (JArray es) =
     (let (ds, err) = foldl store_DockerInspect_elem ([], None) es in (err, ds))"
| "store_DockerInspects JNull = (None, [])"
| "store_DockerInspects v = (Some (UnmarshalTypeError (kindName v) ''[]containerutils.DockerInspect''), [])"

definition json_Unmarshal_DockerInspect :: "string \<Rightarrow> json_error option \<times> DockerInspect list"
  where
  "json_Unmarshal_DockerInspect data =
     (case parse_json data of
        None \<Rightarrow> (Some SyntaxError, [])
      | Some v \<Rightarrow> store_DockerInspects v)"

subsection \<open>The OCI state of a hook\<close>

text \<open>
  The pattern \<^verbatim>\<open>(?ms)^(.*),"annotations":.*$\<close>. With the flag \<^verbatim>\<open>s\<close> a dot matches
  every byte, so a match starts at the first byte, the group takes a prefix that is followed
  by \<^verbatim>\<open>,"annotations":\<close>, and the rest of the text is matched up to its end. The group
  is greedy: \<open>greedy\<close> tries its lengths from the longest down, as the matcher does, and
  the match has the group before the last \<^verbatim>\<open>,"annotations":\<close> of the text.
  \<^verbatim>\<open>FindStringSubmatch\<close> gives the whole match and the group, or nil.
\<close>

definition annotations_marker :: string where
  \<open>annotations_marker = '',"annotations":''\<close>

fun greedy :: "nat \<Rightarrow> string \<Rightarrow> nat option" where
  "greedy 0 s = (if HasPrefix s annotations_marker then Some 0 else None)"
| "greedy (Suc n) s =
     (if HasPrefix (drop (Suc n) s) annotations_marker then Some (Suc n) else greedy n s)"

definition fix_FindStringSubmatch :: "string \<Rightarrow> string list" where
  "fix_FindStringSubmatch s =
     (case greedy (length s) s of
        None \<Rightarrow> []
      | Some n \<Rightarrow> [s, take n s])"

text \<open>
  \<open>ParseOCIState\<close>. The second \<^verbatim>\<open>json.Unmarshal\<close> stores into the variable that the
  first one left. The results are named: a \<^verbatim>\<open>return\<close> before \<open>id\<close> and \<open>pid\<close> are
  assigned returns the empty string and 0 with the error.
\<close>

definition ParseOCIState :: "string \<Rightarrow> string \<times> int \<times> error option" where
  "ParseOCIState stateBuf =
     (let (err, ociState) = json_Unmarshal_State stateBuf State0
      in case err of
           None \<Rightarrow> (ID ociState, Pid ociState, None)
         | Some e \<Rightarrow>
             let matches = fix_FindStringSubmatch stateBuf
             in if length matches \<noteq> 2 then
                  ('''', 0, Some (UnparseableNoMatch matches e stateBuf))
                else
                  let (err', ociState') =
                        json_Unmarshal_State (matches ! 1 @ ''}'') ociState
                  in case err' of
                       Some e' \<Rightarrow> ('''', 0, Some (UnparseableState e' stateBuf))
                     | None \<Rightarrow> (ID ociState', Pid ociState', None))"

subsection \<open>The pid of a container\<close>

text \<open>
  The world outside: \<open>exec_Output\<close> is \<^verbatim>\<open>exec.Command(name, args...).Output()\<close> on
  the command line, \<open>grpc_Dial\<close> is the error of \<^verbatim>\<open>grpc.Dial\<close> on a socket path, if
  any, and \<open>ContainerStatus\<close> is the answer of the runtime service behind a socket: an
  error, or the \<open>Info\<close> map of the response. Each call made is recorded, in order.
\<close>

record ContainerStatusRequest =
  ContainerId :: string
  Verbose :: bool

record world =
  exec_Output :: "string list \<Rightarrow> string + string"
  grpc_Dial :: "string \<Rightarrow> string option"
  ContainerStatus :: "string \<Rightarrow> ContainerStatusRequest \<Rightarrow> string + (string \<rightharpoonup> string)"

datatype call =
    ExecCommand "string list"
  | GrpcDial string
  | RpcContainerStatus string ContainerStatusRequest

definition CONTAINERD_DEFAULT_SOCKET_PATH :: string where
  "CONTAINERD_DEFAULT_SOCKET_PATH = ''/run/containerd/containerd.sock''"

definition CRIO_DEFAULT_SOCKET_PATH :: string where
  "CRIO_DEFAULT_SOCKET_PATH = ''/run/crio/crio.sock''"

definition getContainerStatus ::
  "world \<Rightarrow> string \<Rightarrow> string \<Rightarrow> call list \<times> (error + (string \<rightharpoonup> string))" where
  "getContainerStatus w sockPath containerdID =
     (case grpc_Dial w sockPath of
        Some err \<Rightarrow> ([GrpcDial sockPath], Inl (RpcError err))
      | None \<Rightarrow>
          let request = \<lparr>ContainerId = containerdID, Verbose = True\<rparr>
          in ([GrpcDial sockPath, RpcContainerStatus sockPath request],
              case ContainerStatus w sockPath request of
                Inl err \<Rightarrow> Inl (RpcError err)
              | Inr info \<Rightarrow> Inr info))"

definition PidFromContainerId :: "world \<Rightarrow> string \<Rightarrow> call list \<times> int \<times> error option" where
  "PidFromContainerId w containerID =
     (if HasPrefix containerID ''docker://'' then
        (let args = [''chroot'', ''/host'', ''docker'', ''inspect'',
                     TrimPrefix containerID ''docker://''];
             calls = [ExecCommand args]
         in case exec_Output w args of
              Inl err \<Rightarrow> (calls, - 1, Some (ExecError err))
            | Inr out \<Rightarrow>
                let (err, dockerInspect) = json_Unmarshal_DockerInspect out
                in case err of
                     Some e \<Rightarrow> (calls, - 1, Some (JsonError e))
                   | None \<Rightarrow>
                       if length dockerInspect \<noteq> 1 then (calls, - 1, Some InvalidOutput)
                       else (calls, State_Pid (dockerInspect ! 0), None))
      else if HasPrefix containerID ''cri-o://'' then
        (let IDWithoutPrefix = TrimPrefix containerID ''cri-o://'';
             (calls, r) = getContainerStatus w CRIO_DEFAULT_SOCKET_PATH IDWithoutPrefix
         in case r of
              Inl err \<Rightarrow> (calls, - 1, Some err)
            | Inr info \<Rightarrow>
                (case info ''pid'' of
                   None \<Rightarrow> (calls, - 1, Some (MissingField ''pid''))
                 | Some pidStr \<Rightarrow>
                     (case Atoi pidStr of
                        Inl e \<Rightarrow> (calls, - 1, Some (AtoiError e))
                      | Inr pid \<Rightarrow> (calls, pid, None))))
      else if HasPrefix containerID ''containerd://'' then
        (let IDWithoutPrefix = TrimPrefix containerID ''containerd://'';
             (calls, r) = getContainerStatus w CONTAINERD_DEFAULT_SOCKET_PATH IDWithoutPrefix
         in case r of
              Inl err \<Rightarrow> (calls, - 1, Some err)
            | Inr info \<Rightarrow>
                (case info ''info'' of
                   None \<Rightarrow> (calls, - 1, Some (MissingField ''info''))
                 | Some info' \<Rightarrow>
                     let (err, containerdInspect_Pid) = json_Unmarshal_Pid info'
                     in case err of
                          Some e \<Rightarrow> (calls, - 1, Some (JsonError e))
                        | None \<Rightarrow>
                            if containerdInspect_Pid = 0 then (calls, - 1, Some InvalidPid)
                            else (calls, containerdInspect_Pid, None)))
      else ([], - 1, Some (UnknownRuntime containerID)))"

section \<open>Properties\<close>

subsection \<open>Reading lines\<close>

lemma ReadLines_None: "ReadString r = None \<Longrightarrow> ReadLines r = []"
  by (subst ReadLines.simps) simp

lemma ReadLines_Some:
  "ReadString r = Some (line, rest) \<Longrightarrow> ReadLines r = line # ReadLines rest"
  by (subst ReadLines.simps) simp

lemma cgroup_scan_None: "ReadString r = None \<Longrightarrow> cgroup_scan r v1 v2 = (v1, v2)"
  by (subst cgroup_scan.simps) simp

lemma cgroup_scan_Some:
  "ReadString r = Some (line, rest) \<Longrightarrow>
   cgroup_scan r v1 v2 =
     (if HasPrefix line ''1:name=systemd:'' then
        cgroup_scan rest (TrimSuffix (TrimPrefix line ''1:name=systemd:'') [CHR 0x0A]) v2
      else if HasPrefix line ''0::'' then
        cgroup_scan rest v1 (TrimSuffix (TrimPrefix line ''0::'') [CHR 0x0A])
      else cgroup_scan rest v1 v2)"
  by (subst cgroup_scan.simps) simp

lemma ReadString_line:
  "ReadString r = Some (line, rest) \<Longrightarrow>
     \<exists>b. line = b @ [CHR 0x0A] \<and> CHR 0x0A \<notin> set b \<and> r = line @ rest"
proof (induction r arbitrary: line rest)
  case Nil
  then show ?case by simp
next
  case (Cons c cs)
  show ?case
  proof (cases "c = CHR 0x0A")
    case True
    with Cons.prems show ?thesis by auto
  next
    case False
    with Cons.prems obtain l' where r: "ReadString cs = Some (l', rest)" and l: "line = c # l'"
      by (auto split: option.splits)
    from Cons.IH [OF r] obtain b
      where "l' = b @ [CHR 0x0A]" "CHR 0x0A \<notin> set b" "cs = l' @ rest"
      by blast
    with l False show ?thesis
      by (intro exI [of _ "c # b"]) simp
  qed
qed

lemma ReadLines_line:
  "l \<in> set (ReadLines r) \<Longrightarrow> \<exists>b. l = b @ [CHR 0x0A] \<and> CHR 0x0A \<notin> set b"
proof (induction r rule: ReadLines.induct)
  case (1 r)
  show ?case
  proof (cases "ReadString r")
    case None
    with "1.prems" show ?thesis by (simp add: ReadLines_None)
  next
    case (Some a)
    obtain line rest where a: "a = (line, rest)" by (cases a)
    with Some "1.prems" have "l = line \<or> l \<in> set (ReadLines rest)"
      by (simp add: ReadLines_Some)
    then show ?thesis
    proof
      assume "l = line"
      with ReadString_line Some a show ?thesis by blast
    next
      assume "l \<in> set (ReadLines rest)"
      with "1.IH" Some a show ?thesis by blast
    qed
  qed
qed

lemma prefixes_exclusive: "HasPrefix l ''1:name=systemd:'' \<Longrightarrow> \<not> HasPrefix l ''0::''"
  by (cases l) (auto simp: HasPrefix_def)

text \<open>
  What the loop leaves in each variable: the last line with the marker, trimmed, or the
  initial value when no line has the marker.
\<close>

lemma cgroup_scan_v2:
  "snd (cgroup_scan r v1 v2) =
     (case filter (\<lambda>l. HasPrefix l ''0::'') (ReadLines r) of
        [] \<Rightarrow> v2
      | x # xs \<Rightarrow> TrimSuffix (TrimPrefix (last (x # xs)) ''0::'') [CHR 0x0A])"
proof (induction r v1 v2 rule: cgroup_scan.induct)
  case (1 r v1 v2)
  show ?case
  proof (cases "ReadString r")
    case None
    then show ?thesis by (simp add: ReadLines_None cgroup_scan_None)
  next
    case (Some a)
    obtain line rest where a: "a = (line, rest)" by (cases a)
    show ?thesis
      using "1.IH" [OF Some a [symmetric]] Some a prefixes_exclusive [of line]
      by (auto simp: ReadLines_Some cgroup_scan_Some split: list.splits)
  qed
qed

lemma cgroup_scan_v1:
  "fst (cgroup_scan r v1 v2) =
     (case filter (\<lambda>l. HasPrefix l ''1:name=systemd:'') (ReadLines r) of
        [] \<Rightarrow> v1
      | x # xs \<Rightarrow> TrimSuffix (TrimPrefix (last (x # xs)) ''1:name=systemd:'') [CHR 0x0A])"
proof (induction r v1 v2 rule: cgroup_scan.induct)
  case (1 r v1 v2)
  show ?case
  proof (cases "ReadString r")
    case None
    then show ?thesis by (simp add: ReadLines_None cgroup_scan_None)
  next
    case (Some a)
    obtain line rest where a: "a = (line, rest)" by (cases a)
    show ?thesis
      using "1.IH" [OF Some a [symmetric]] Some a prefixes_exclusive [of line]
      by (auto simp: ReadLines_Some cgroup_scan_Some split: list.splits)
  qed
qed

subsection \<open>The cgroup id\<close>

text \<open>
  C9. \<open>GetCgroupID\<close> never returns the pair (0, nil): when the allocation fails, the
  handle lookup returns an error or a handle size other than 8, or the id read is 0, the
  result is 0 with the \<open>LookupFailed\<close> error; an id returned with a nil error is not 0.
\<close>

theorem GetCgroupID_never_zero_nil:
  "GetCgroupID k p \<noteq> (0, None)
   \<and> (GetCgroupID k p = (r, None) \<longrightarrow> r \<noteq> 0)
   \<and> ((\<not> malloc_ok k
        \<or> fst (name_to_handle_at k (CString p) ((malloc_handle k)\<lparr>handle_bytes := 8\<rparr>)) \<noteq> 0
        \<or> handle_bytes (snd (name_to_handle_at k (CString p)
              ((malloc_handle k)\<lparr>handle_bytes := 8\<rparr>))) \<noteq> 8
        \<or> cgid (snd (name_to_handle_at k (CString p)
              ((malloc_handle k)\<lparr>handle_bytes := 8\<rparr>))) = 0)
       \<longrightarrow> GetCgroupID k p = (0, Some (LookupFailed p)))"
  by (auto simp: GetCgroupID_def get_cgroupid_def Let_def split: prod.splits if_splits)

theorem GetCgroupID_never_zero_nil_witness:
  "GetCgroupID
     \<lparr>malloc_ok = True,
      malloc_handle = \<lparr>handle_bytes = 0, handle_type = 0, cgid = 0\<rparr>,
      name_to_handle_at = (\<lambda>p h. (0, h\<lparr>handle_type := 1, cgid := 42\<rparr>))\<rparr>
     ''/sys/fs/cgroup/unified/a'' = (42, None)
   \<and> (42 :: 64 word) \<noteq> 0
   \<and> GetCgroupID
       \<lparr>malloc_ok = True,
        malloc_handle = \<lparr>handle_bytes = 0, handle_type = 0, cgid = 7\<rparr>,
        name_to_handle_at = (\<lambda>p h. (- 1, h))\<rparr>
       ''/sys/fs/cgroup/unified/a'' = (0, Some (LookupFailed ''/sys/fs/cgroup/unified/a''))"
  using GetCgroupID_never_zero_nil
    [of "\<lparr>malloc_ok = True,
          malloc_handle = \<lparr>handle_bytes = 0, handle_type = 0, cgid = 0\<rparr>,
          name_to_handle_at = (\<lambda>p h. (0, h\<lparr>handle_type := 1, cgid := 42\<rparr>))\<rparr>"
        "''/sys/fs/cgroup/unified/a''" 42]
    GetCgroupID_never_zero_nil
    [of "\<lparr>malloc_ok = True,
          malloc_handle = \<lparr>handle_bytes = 0, handle_type = 0, cgid = 7\<rparr>,
          name_to_handle_at = (\<lambda>p h. (- 1, h))\<rparr>"
        "''/sys/fs/cgroup/unified/a''" 0]
  by (simp add: GetCgroupID_def get_cgroupid_def CString_def)

subsection \<open>The cgroup paths\<close>

lemma HasPrefix_append: "HasPrefix l m \<Longrightarrow> l = m @ TrimPrefix l m"
  by (metis HasPrefix_def TrimPrefix_def append_take_drop_id)

lemma TrimSuffix_snoc: "TrimSuffix (d @ [c]) [c] = d"
  by (simp add: TrimSuffix_def HasSuffix_def)

lemma marker_line_shape:
  assumes "l \<in> set (ReadLines c)" and "HasPrefix l ''0::''"
  shows "l = ''0::'' @ TrimSuffix (TrimPrefix l ''0::'') [CHR 0x0A] @ [CHR 0x0A]
         \<and> CHR 0x0A \<notin> set (TrimSuffix (TrimPrefix l ''0::'') [CHR 0x0A])"
proof -
  from ReadLines_line [OF assms(1)] obtain b where b: "l = b @ [CHR 0x0A]" "CHR 0x0A \<notin> set b"
    by blast
  define d where "d = TrimPrefix l ''0::''"
  from HasPrefix_append [OF assms(2)] have l: "l = ''0::'' @ d" by (simp add: d_def)
  have "d \<noteq> []"
  proof
    assume "d = []"
    with l b have "last ''0::'' = CHR 0x0A" by (metis append_Nil2 last_snoc)
    then show False by simp
  qed
  then obtain d' where d': "d = d' @ [CHR 0x0A]" and bd: "b = ''0::'' @ d'"
    using l b by (cases d rule: rev_cases) auto
  from bd b(2) have "CHR 0x0A \<notin> set d'" by simp
  with l d' show ?thesis
    unfolding d_def [symmetric] by (simp add: TrimSuffix_snoc)
qed

text \<open>
  C3, as amended. \<open>GetCgroupPaths\<close> fails with \<open>NotFound\<close> when the cgroup file of the
  process cannot be opened, and only then. When the file is opened, it fails with
  \<open>NoCgroup\<close>, another error, if no line read from it up to a newline starts with the
  marker \<^verbatim>\<open>1:name=systemd:\<close> or \<^verbatim>\<open>0::\<close>, and more generally exactly when both
  paths found by the loop are empty or the root.
\<close>

theorem GetCgroupPaths_errors:
  "(os_Open (''/proc/'' @ Sprintf_d pid @ ''/cgroup'') = Inl e
      \<longrightarrow> GetCgroupPaths os_Open pid = ('''', '''', Some (NotFound e)))
   \<and> (snd (snd (GetCgroupPaths os_Open pid)) = Some (NotFound e)
      \<longrightarrow> os_Open (''/proc/'' @ Sprintf_d pid @ ''/cgroup'') = Inl e)
   \<and> (os_Open (''/proc/'' @ Sprintf_d pid @ ''/cgroup'') = Inr c
        \<and> (\<forall>l \<in> set (ReadLines c). \<not> HasPrefix l ''1:name=systemd:'' \<and> \<not> HasPrefix l ''0::'')
      \<longrightarrow> GetCgroupPaths os_Open pid = ('''', '''', Some NoCgroup))
   \<and> (os_Open (''/proc/'' @ Sprintf_d pid @ ''/cgroup'') = Inr c
      \<longrightarrow> (snd (snd (GetCgroupPaths os_Open pid)) = Some NoCgroup
            \<longleftrightarrow> fst (cgroup_scan c '''' '''') \<in> {'''', ''/''}
                \<and> snd (cgroup_scan c '''' '''') \<in> {'''', ''/''}))
   \<and> NotFound e \<noteq> NoCgroup"
proof -
  have none: "cgroup_scan c '''' '''' = ('''', '''')"
    if "\<forall>l \<in> set (ReadLines c). \<not> HasPrefix l ''1:name=systemd:'' \<and> \<not> HasPrefix l ''0::''"
  proof -
    from that have "filter (\<lambda>l. HasPrefix l ''1:name=systemd:'') (ReadLines c) = []"
      and "filter (\<lambda>l. HasPrefix l ''0::'') (ReadLines c) = []"
      by (simp_all add: filter_empty_conv)
    then have "fst (cgroup_scan c '''' '''') = ''''" and "snd (cgroup_scan c '''' '''') = ''''"
      by (simp_all add: cgroup_scan_v1 cgroup_scan_v2)
    then show ?thesis by (simp add: prod_eq_iff)
  qed
  have only_open: "os_Open (''/proc/'' @ Sprintf_d pid @ ''/cgroup'') = Inl e"
    if "snd (snd (GetCgroupPaths os_Open pid)) = Some (NotFound e)"
    using that
    by (cases "os_Open (''/proc/'' @ Sprintf_d pid @ ''/cgroup'')")
      (auto simp: GetCgroupPaths_def Let_def split: prod.splits if_splits)
  have rest:
    "(os_Open (''/proc/'' @ Sprintf_d pid @ ''/cgroup'') = Inl e
      \<longrightarrow> GetCgroupPaths os_Open pid = ('''', '''', Some (NotFound e)))
   \<and> (os_Open (''/proc/'' @ Sprintf_d pid @ ''/cgroup'') = Inr c
        \<and> (\<forall>l \<in> set (ReadLines c). \<not> HasPrefix l ''1:name=systemd:'' \<and> \<not> HasPrefix l ''0::'')
      \<longrightarrow> GetCgroupPaths os_Open pid = ('''', '''', Some NoCgroup))
   \<and> (os_Open (''/proc/'' @ Sprintf_d pid @ ''/cgroup'') = Inr c
      \<longrightarrow> (snd (snd (GetCgroupPaths os_Open pid)) = Some NoCgroup
            \<longleftrightarrow> fst (cgroup_scan c '''' '''') \<in> {'''', ''/''}
                \<and> snd (cgroup_scan c '''' '''') \<in> {'''', ''/''}))
   \<and> NotFound e \<noteq> NoCgroup"
    using none by (auto simp: GetCgroupPaths_def Let_def split: prod.splits)
  from rest only_open show ?thesis by blast
qed

theorem GetCgroupPaths_errors_witness:
  "GetCgroupPaths
     (\<lambda>p. if p = ''/proc/12/cgroup'' then Inr (''12:pids:/a'' @ [CHR 0x0A] @ ''0::/b'')
          else Inl ''no such file or directory'') 13
     = ('''', '''', Some (NotFound ''no such file or directory''))
   \<and> GetCgroupPaths
     (\<lambda>p. if p = ''/proc/12/cgroup'' then Inr (''12:pids:/a'' @ [CHR 0x0A] @ ''0::/b'')
          else Inl ''no such file or directory'') 12
     = ('''', '''', Some NoCgroup)"
proof -
  let ?c = "''12:pids:/a'' @ [CHR 0x0A] @ ''0::/b''"
  let ?os = "\<lambda>p. if p = ''/proc/12/cgroup'' then Inr ?c
                  else Inl ''no such file or directory'' :: string + string"
  have a: "?os (''/proc/'' @ Sprintf_d 13 @ ''/cgroup'') = Inl ''no such file or directory''"
    by code_simp
  have b: "?os (''/proc/'' @ Sprintf_d 12 @ ''/cgroup'') = Inr ?c"
    by code_simp
  have c: "\<forall>l \<in> set (ReadLines ?c). \<not> HasPrefix l ''1:name=systemd:'' \<and> \<not> HasPrefix l ''0::''"
    by code_simp
  from a GetCgroupPaths_errors [where os_Open = ?os and pid = 13
      and e = "''no such file or directory''"]
  have "GetCgroupPaths ?os 13 = ('''', '''', Some (NotFound ''no such file or directory''))"
    by blast
  moreover from b c GetCgroupPaths_errors [where os_Open = ?os and pid = 12 and c = ?c]
  have "GetCgroupPaths ?os 12 = ('''', '''', Some NoCgroup)"
    by blast
  ultimately show ?thesis by blast
qed

text \<open>
  C3 as stated fails for a file that is opened and cannot be read: the first
  \<^verbatim>\<open>ReadString\<close> returns an error, the loop breaks with both paths empty, and the
  error is \<open>NoCgroup\<close>, not \<open>NotFound\<close>. Having neither marker line is also not the
  same as both paths being empty: the file with the one line \<^verbatim>\<open>0::/\<close> has a marker
  line, and both paths returned are empty.
\<close>

theorem GetCgroupPaths_errors_counterexample:
  "GetCgroupPaths (\<lambda>p. Inr '''') 12 = ('''', '''', Some NoCgroup)
   \<and> ReadLines (''0::/'' @ [CHR 0x0A]) = [''0::/'' @ [CHR 0x0A]]
   \<and> HasPrefix (''0::/'' @ [CHR 0x0A]) ''0::''
   \<and> GetCgroupPaths (\<lambda>p. Inr (''0::/'' @ [CHR 0x0A])) 12 = ('''', '''', Some NoCgroup)"
  by code_simp

text \<open>
  C5, as amended. When the cgroup file of the process is read and has a line, ended by a
  newline, that starts with \<^verbatim>\<open>0::\<close>, the v2 path found is the last such line
  without its first \<^verbatim>\<open>0::\<close> and without its newline, and holds no newline. When
  that path is neither empty nor the root \<^verbatim>\<open>/\<close>, \<open>GetCgroupPaths\<close> returns it
  with a nil error; when it is empty or the root, the v2 path returned is empty.
\<close>

theorem GetCgroupPaths_v2_path:
  assumes "os_Open (''/proc/'' @ Sprintf_d pid @ ''/cgroup'') = Inr c"
      and "filter (\<lambda>l. HasPrefix l ''0::'') (ReadLines c) \<noteq> []"
      and "l = last (filter (\<lambda>l. HasPrefix l ''0::'') (ReadLines c))"
      and "p = TrimSuffix (TrimPrefix l ''0::'') [CHR 0x0A]"
  shows "l = ''0::'' @ p @ [CHR 0x0A] \<and> CHR 0x0A \<notin> set p
     \<and> (p \<noteq> '''' \<and> p \<noteq> ''/'' \<longrightarrow> (\<exists>v1. GetCgroupPaths os_Open pid = (v1, p, None)))
     \<and> (p = '''' \<or> p = ''/'' \<longrightarrow> fst (snd (GetCgroupPaths os_Open pid)) = '''')"
proof -
  from assms(2,3) have "l \<in> set (filter (\<lambda>l. HasPrefix l ''0::'') (ReadLines c))"
    using last_in_set by blast
  then have "l \<in> set (ReadLines c)" "HasPrefix l ''0::''" by simp_all
  from marker_line_shape [of l c] this assms(4)
  have shape: "l = ''0::'' @ p @ [CHR 0x0A] \<and> CHR 0x0A \<notin> set p" by simp
  from assms(2,3,4) have v2: "snd (cgroup_scan c '''' '''') = p"
    by (simp add: cgroup_scan_v2 split: list.splits)
  show ?thesis
    using shape v2 assms(1)
    by (auto simp: GetCgroupPaths_def Let_def split: prod.splits)
qed

theorem GetCgroupPaths_v2_path_witness:
  "GetCgroupPaths
     (\<lambda>p. Inr (''1:name=systemd:/s'' @ [CHR 0x0A] @ ''0::/a/b'' @ [CHR 0x0A])) 12
     = (''/s'', ''/a/b'', None)"
proof -
  let ?c = "''1:name=systemd:/s'' @ [CHR 0x0A] @ ''0::/a/b'' @ [CHR 0x0A]"
  let ?l = "''0::/a/b'' @ [CHR 0x0A]"
  have a: "filter (\<lambda>l. HasPrefix l ''0::'') (ReadLines ?c) \<noteq> []" by code_simp
  have b: "?l = last (filter (\<lambda>l. HasPrefix l ''0::'') (ReadLines ?c))" by code_simp
  have c: "''/a/b'' = TrimSuffix (TrimPrefix ?l ''0::'') [CHR 0x0A]" by code_simp
  have d: "fst (GetCgroupPaths (\<lambda>p. Inr ?c) 12) = ''/s''" by code_simp
  from GetCgroupPaths_v2_path [where os_Open = "\<lambda>p. Inr ?c" and pid = 12, OF refl a b c]
  obtain v1 where "GetCgroupPaths (\<lambda>p. Inr ?c) 12 = (v1, ''/a/b'', None)" by auto
  with d show ?thesis by simp
qed

text \<open>
  C5 as stated fails for a process in the root cgroup: the file has the line
  \<^verbatim>\<open>0::/\<close>, the v2 path is normalised to the empty string and, with no v1 path,
  the call fails with \<open>NoCgroup\<close>. Only one marker is removed, so the line
  \<^verbatim>\<open>0::0::a\<close> gives a path that starts with the marker.
\<close>

theorem GetCgroupPaths_v2_path_counterexample:
  "ReadLines (''0::/'' @ [CHR 0x0A]) = [''0::/'' @ [CHR 0x0A]]
   \<and> HasPrefix (''0::/'' @ [CHR 0x0A]) ''0::''
   \<and> GetCgroupPaths (\<lambda>p. Inr (''0::/'' @ [CHR 0x0A])) 1 = ('''', '''', Some NoCgroup)
   \<and> GetCgroupPaths (\<lambda>p. Inr (''0::0::a'' @ [CHR 0x0A])) 1 = ('''', ''0::a'', None)"
  by code_simp

text \<open>
  C6. The paths returned by \<open>GetCgroupPaths\<close> are never the string \<^verbatim>\<open>/\<close>: a
  path that is \<^verbatim>\<open>/\<close> once the marker and the newline are removed is returned as
  the empty string, for the v1 and for the v2 hierarchy.
\<close>

theorem GetCgroupPaths_never_root:
  "(GetCgroupPaths os_Open pid = (v1, v2, e) \<longrightarrow> v1 \<noteq> ''/'' \<and> v2 \<noteq> ''/'')
   \<and> (os_Open (''/proc/'' @ Sprintf_d pid @ ''/cgroup'') = Inr c
      \<longrightarrow> (fst (cgroup_scan c '''' '''') = ''/'' \<longrightarrow> fst (GetCgroupPaths os_Open pid) = '''')
        \<and> (snd (cgroup_scan c '''' '''') = ''/''
            \<longrightarrow> fst (snd (GetCgroupPaths os_Open pid)) = ''''))
   \<and> (os_Open (''/proc/'' @ Sprintf_d pid @ ''/cgroup'') = Inr c
        \<and> filter (\<lambda>l. HasPrefix l ''1:name=systemd:'') (ReadLines c) \<noteq> []
        \<and> TrimSuffix
            (TrimPrefix (last (filter (\<lambda>l. HasPrefix l ''1:name=systemd:'') (ReadLines c)))
               ''1:name=systemd:'') [CHR 0x0A] = ''/''
      \<longrightarrow> fst (GetCgroupPaths os_Open pid) = '''')
   \<and> (os_Open (''/proc/'' @ Sprintf_d pid @ ''/cgroup'') = Inr c
        \<and> filter (\<lambda>l. HasPrefix l ''0::'') (ReadLines c) \<noteq> []
        \<and> TrimSuffix
            (TrimPrefix (last (filter (\<lambda>l. HasPrefix l ''0::'') (ReadLines c))) ''0::'')
            [CHR 0x0A] = ''/''
      \<longrightarrow> fst (snd (GetCgroupPaths os_Open pid)) = '''')"
proof -
  have never: "v1 \<noteq> ''/'' \<and> v2 \<noteq> ''/''" if "GetCgroupPaths os_Open pid = (v1, v2, e)"
    using that
    by (auto simp: GetCgroupPaths_def Let_def split: prod.splits sum.splits if_splits)
  have r1: "fst (GetCgroupPaths os_Open pid) = ''''"
    if "os_Open (''/proc/'' @ Sprintf_d pid @ ''/cgroup'') = Inr c"
      and "fst (cgroup_scan c '''' '''') = ''/''"
    using that by (auto simp: GetCgroupPaths_def Let_def split: prod.splits)
  have r2: "fst (snd (GetCgroupPaths os_Open pid)) = ''''"
    if "os_Open (''/proc/'' @ Sprintf_d pid @ ''/cgroup'') = Inr c"
      and "snd (cgroup_scan c '''' '''') = ''/''"
    using that by (auto simp: GetCgroupPaths_def Let_def split: prod.splits)
  have s1: "fst (cgroup_scan c '''' '''') = ''/''"
    if "filter (\<lambda>l. HasPrefix l ''1:name=systemd:'') (ReadLines c) \<noteq> []"
      and "TrimSuffix
            (TrimPrefix (last (filter (\<lambda>l. HasPrefix l ''1:name=systemd:'') (ReadLines c)))
               ''1:name=systemd:'') [CHR 0x0A] = ''/''"
    using that
    by (cases "filter (\<lambda>l. HasPrefix l ''1:name=systemd:'') (ReadLines c)")
      (simp_all add: cgroup_scan_v1)
  have s2: "snd (cgroup_scan c '''' '''') = ''/''"
    if "filter (\<lambda>l. HasPrefix l ''0::'') (ReadLines c) \<noteq> []"
      and "TrimSuffix
            (TrimPrefix (last (filter (\<lambda>l. HasPrefix l ''0::'') (ReadLines c))) ''0::'')
            [CHR 0x0A] = ''/''"
    using that
    by (cases "filter (\<lambda>l. HasPrefix l ''0::'') (ReadLines c)")
      (simp_all add: cgroup_scan_v2)
  show ?thesis
    using never r1 r2 s1 s2 by blast
qed

theorem GetCgroupPaths_never_root_witness:
  "GetCgroupPaths
     (\<lambda>p. Inr (''1:name=systemd:/'' @ [CHR 0x0A] @ ''0::/a/b'' @ [CHR 0x0A])) 12
     = ('''', ''/a/b'', None)
   \<and> '''' \<noteq> ''/'' \<and> ''/a/b'' \<noteq> ''/''
   \<and> fst (cgroup_scan (''1:name=systemd:/'' @ [CHR 0x0A] @ ''0::/a/b'' @ [CHR 0x0A]) '''' '''') = ''/''
   \<and> fst (GetCgroupPaths
       (\<lambda>p. Inr (''1:name=systemd:/'' @ [CHR 0x0A] @ ''0::/a/b'' @ [CHR 0x0A])) 12) = ''''
   \<and> snd (cgroup_scan (''0::/'' @ [CHR 0x0A]) '''' '''') = ''/''
   \<and> fst (snd (GetCgroupPaths (\<lambda>p. Inr (''0::/'' @ [CHR 0x0A])) 12)) = ''''"
proof -
  let ?c = "''1:name=systemd:/'' @ [CHR 0x0A] @ ''0::/a/b'' @ [CHR 0x0A]"
  let ?d = "''0::/'' @ [CHR 0x0A]"
  have r: "GetCgroupPaths (\<lambda>p. Inr ?c) 12 = ('''', ''/a/b'', None)"
    by code_simp
  have s1: "fst (cgroup_scan ?c '''' '''') = ''/''"
    by code_simp
  have s2: "snd (cgroup_scan ?d '''' '''') = ''/''"
    by code_simp
  have l1: "filter (\<lambda>l. HasPrefix l ''1:name=systemd:'') (ReadLines ?c) \<noteq> []"
    by code_simp
  have t1: "TrimSuffix
            (TrimPrefix (last (filter (\<lambda>l. HasPrefix l ''1:name=systemd:'') (ReadLines ?c)))
               ''1:name=systemd:'') [CHR 0x0A] = ''/''"
    by code_simp
  have l2: "filter (\<lambda>l. HasPrefix l ''0::'') (ReadLines ?d) \<noteq> []"
    by code_simp
  have t2: "TrimSuffix
            (TrimPrefix (last (filter (\<lambda>l. HasPrefix l ''0::'') (ReadLines ?d))) ''0::'')
            [CHR 0x0A] = ''/''"
    by code_simp
  from r s1 l1 t1
    GetCgroupPaths_never_root [where os_Open = "\<lambda>p. Inr ?c" and pid = 12 and c = ?c
      and ?v1.0 = "''''" and ?v2.0 = "''/a/b''" and e = None]
  have a: "'''' \<noteq> ''/'' \<and> ''/a/b'' \<noteq> ''/''"
    and b: "fst (GetCgroupPaths (\<lambda>p. Inr ?c) 12) = ''''"
    by blast+
  from s2 l2 t2
    GetCgroupPaths_never_root [where os_Open = "\<lambda>p. Inr ?d" and pid = 12 and c = ?d]
  have c: "fst (snd (GetCgroupPaths (\<lambda>p. Inr ?d) 12)) = ''''"
    by blast
  from r s1 s2 a b c show ?thesis by blast
qed

subsection \<open>The recovery pattern\<close>

lemma HasPrefix_iff: "HasPrefix s m \<longleftrightarrow> (\<exists>r. s = m @ r)"
proof
  assume "HasPrefix s m"
  then have "s = m @ drop (length m) s"
    by (metis HasPrefix_def append_take_drop_id)
  then show "\<exists>r. s = m @ r" ..
next
  assume "\<exists>r. s = m @ r"
  then show "HasPrefix s m" by (auto simp: HasPrefix_def)
qed

lemma greedy_None:
  "greedy n s = None \<longleftrightarrow> (\<forall>k\<le>n. \<not> HasPrefix (drop k s) annotations_marker)"
proof (induction n)
  case 0
  then show ?case by simp
next
  case (Suc n)
  show ?case
  proof (cases "HasPrefix (drop (Suc n) s) annotations_marker")
    case True
    then show ?thesis by auto
  next
    case False
    then have "greedy (Suc n) s = None \<longleftrightarrow> (\<forall>k\<le>n. \<not> HasPrefix (drop k s) annotations_marker)"
      using Suc.IH by simp
    also have "\<dots> \<longleftrightarrow> (\<forall>k\<le>Suc n. \<not> HasPrefix (drop k s) annotations_marker)"
      using False by (auto simp: le_Suc_eq)
    finally show ?thesis .
  qed
qed

lemma greedy_last:
  assumes "j \<le> n" and "HasPrefix (drop j s) annotations_marker"
      and "\<forall>k. j < k \<and> k \<le> n \<longrightarrow> \<not> HasPrefix (drop k s) annotations_marker"
  shows "greedy n s = Some j"
  using assms
proof (induction n)
  case 0
  then show ?case by simp
next
  case (Suc n)
  show ?case
  proof (cases "j = Suc n")
    case True
    with Suc.prems show ?thesis by simp
  next
    case False
    with Suc.prems have "j \<le> n" and "j < Suc n" by simp_all
    with Suc.prems have no: "\<not> HasPrefix (drop (Suc n) s) annotations_marker" by blast
    from Suc.prems have "\<forall>k. j < k \<and> k \<le> n \<longrightarrow> \<not> HasPrefix (drop k s) annotations_marker"
      by auto
    with Suc.IH \<open>j \<le> n\<close> Suc.prems(2) have "greedy n s = Some j" by blast
    with no show ?thesis by simp
  qed
qed

lemma sublist_marker_drop:
  "sublist annotations_marker s \<longleftrightarrow> (\<exists>k\<le>length s. HasPrefix (drop k s) annotations_marker)"
proof
  assume "sublist annotations_marker s"
  then obtain p r where s: "s = p @ annotations_marker @ r" by (auto simp: sublist_def)
  then have "drop (length p) s = annotations_marker @ r" by simp
  then have "HasPrefix (drop (length p) s) annotations_marker" by (auto simp: HasPrefix_iff)
  moreover from s have "length p \<le> length s" by simp
  ultimately show "\<exists>k\<le>length s. HasPrefix (drop k s) annotations_marker" by blast
next
  assume "\<exists>k\<le>length s. HasPrefix (drop k s) annotations_marker"
  then obtain k r where "drop k s = annotations_marker @ r" by (auto simp: HasPrefix_iff)
  then have "s = take k s @ annotations_marker @ r" by (metis append_take_drop_id)
  then show "sublist annotations_marker s" by (auto simp: sublist_def)
qed

lemma FindStringSubmatch_no_marker:
  "\<not> sublist annotations_marker s \<Longrightarrow> fix_FindStringSubmatch s = []"
proof -
  assume "\<not> sublist annotations_marker s"
  then have "\<forall>k\<le>length s. \<not> HasPrefix (drop k s) annotations_marker"
    by (simp add: sublist_marker_drop)
  then have "greedy (length s) s = None" by (simp add: greedy_None)
  then show ?thesis by (simp add: fix_FindStringSubmatch_def)
qed

text \<open>The comma of the marker is its first byte only, so two markers do not overlap.\<close>

lemma marker_no_overlap:
  assumes "0 < i" and "i < length annotations_marker"
  shows "\<not> HasPrefix (drop i annotations_marker @ r) annotations_marker"
proof
  assume h: "HasPrefix (drop i annotations_marker @ r) annotations_marker"
  from assms have ne: "drop i annotations_marker \<noteq> []" by simp
  from h obtain t where "drop i annotations_marker @ r = annotations_marker @ t"
    by (auto simp: HasPrefix_iff)
  moreover have "annotations_marker \<noteq> []" by (simp add: annotations_marker_def)
  ultimately have "hd (drop i annotations_marker @ r) = hd annotations_marker" by simp
  with ne have "hd (drop i annotations_marker) = hd annotations_marker" by simp
  then have "CHR '','' \<in> set (drop i annotations_marker)"
    using ne by (metis hd_in_set list.sel(1) annotations_marker_def)
  moreover from assms(1) obtain i' where "i = Suc i'" by (cases i) auto
  then have "set (drop i annotations_marker) \<subseteq> set (tl annotations_marker)"
    by (simp add: drop_Suc set_drop_subset)
  moreover have "CHR '','' \<notin> set (tl annotations_marker)"
    by (simp add: annotations_marker_def)
  ultimately show False by blast
qed

lemma FindStringSubmatch_last_marker:
  assumes "s = p @ annotations_marker @ r" and "\<not> sublist annotations_marker r"
  shows "fix_FindStringSubmatch s = [s, p]"
proof -
  let ?m = annotations_marker
  have at: "HasPrefix (drop (length p) s) ?m"
    using assms(1) by (auto simp: HasPrefix_iff)
  have later: "\<not> HasPrefix (drop k s) ?m" if "length p < k" and "k \<le> length s" for k
  proof (cases "k < length p + length ?m")
    case True
    define i where "i = k - length p"
    from True that have i: "0 < i" "i < length ?m" by (simp_all add: i_def)
    from that have "drop k s = drop i ?m @ r"
      using assms(1) i by (simp add: i_def)
    with marker_no_overlap [OF i] show ?thesis by simp
  next
    case False
    then have "drop k s = drop (k - length p - length ?m) r"
      using assms(1) by simp
    moreover have "\<not> HasPrefix (drop j r) ?m" for j
    proof
      assume "HasPrefix (drop j r) ?m"
      then obtain t where "drop j r = ?m @ t" by (auto simp: HasPrefix_iff)
      then have "r = take j r @ ?m @ t" by (metis append_take_drop_id)
      then have "sublist ?m r" by (auto simp: sublist_def)
      with assms(2) show False by blast
    qed
    ultimately show ?thesis by simp
  qed
  have "length p \<le> length s" using assms(1) by simp
  then have "greedy (length s) s = Some (length p)"
    using at later by (intro greedy_last) auto
  then show ?thesis using assms(1) by (simp add: fix_FindStringSubmatch_def)
qed

subsection \<open>The OCI state\<close>

lemma ParseOCIState_decoded:
  "json_Unmarshal_State stateBuf State0 = (None, st) \<Longrightarrow>
     ParseOCIState stateBuf = (ID st, Pid st, None)"
  by (simp add: ParseOCIState_def)

text \<open>A member whose key does not name a field leaves the field as it is.\<close>

lemma store_State_member_ID:
  "\<not> fieldMatches ''id'' (fst kv) \<Longrightarrow> ID (fst (store_State_member acc kv)) = ID (fst acc)"
  by (simp add: store_State_member_def Let_def split: prod.splits)

lemma store_State_member_Pid:
  "\<not> fieldMatches ''pid'' (fst kv) \<Longrightarrow> Pid (fst (store_State_member acc kv)) = Pid (fst acc)"
  by (simp add: store_State_member_def Let_def split: prod.splits)

lemma foldl_store_State_member_ID:
  "\<forall>kv \<in> set ms. \<not> fieldMatches ''id'' (fst kv) \<Longrightarrow>
     ID (fst (foldl store_State_member acc ms)) = ID (fst acc)"
  by (induction ms arbitrary: acc) (simp_all add: store_State_member_ID)

lemma foldl_store_State_member_Pid:
  "\<forall>kv \<in> set ms. \<not> fieldMatches ''pid'' (fst kv) \<Longrightarrow>
     Pid (fst (foldl store_State_member acc ms)) = Pid (fst acc)"
  by (induction ms arbitrary: acc) (simp_all add: store_State_member_Pid)

text \<open>
  C7. \<open>ParseOCIState\<close> on the bytes \<^verbatim>\<open>{"id":"abc","pid":123}\<close> returns the id
  \<^verbatim>\<open>abc\<close>, the pid 123 and a nil error.
\<close>

theorem ParseOCIState_id_pid:
  \<open>ParseOCIState ''{"id":"abc","pid":123}'' = (''abc'', 123, None)\<close>
  by code_simp

text \<open>
  C8. When the strict decoding of a payload fails and the payload does not contain
  \<^verbatim>\<open>,"annotations":\<close>, \<open>ParseOCIState\<close> returns the error that holds the empty list of
  matches, the error of the decoding and the payload, and returns the empty id and the pid
  0 with it.
\<close>

theorem ParseOCIState_no_marker:
  assumes "fst (json_Unmarshal_State stateBuf State0) = Some e"
      and "\<not> sublist annotations_marker stateBuf"
  shows "ParseOCIState stateBuf = ('''', 0, Some (UnparseableNoMatch [] e stateBuf))"
proof -
  from assms(1) obtain st where "json_Unmarshal_State stateBuf State0 = (Some e, st)"
    by (cases "json_Unmarshal_State stateBuf State0") simp
  moreover from assms(2) have "fix_FindStringSubmatch stateBuf = []"
    by (rule FindStringSubmatch_no_marker)
  ultimately show ?thesis by (simp add: ParseOCIState_def)
qed

theorem ParseOCIState_no_marker_witness:
  \<open>ParseOCIState ''{"id":"abc","pid":'' =
     ('''', 0, Some (UnparseableNoMatch [] SyntaxError ''{"id":"abc","pid":''))\<close>
proof -
  have a: \<open>fst (json_Unmarshal_State ''{"id":"abc","pid":'' State0) = Some SyntaxError\<close>
    by code_simp
  have b: \<open>\<not> sublist annotations_marker ''{"id":"abc","pid":''\<close>
    by code_simp
  from ParseOCIState_no_marker [OF a b] show ?thesis .
qed

text \<open>
  C2, as amended. Let a payload be a prefix, then \<^verbatim>\<open>,"annotations":\<close>, then a rest that
  does not contain \<^verbatim>\<open>,"annotations":\<close> again, and let it not be a well-formed JSON text,
  so that its strict decoding fails with a syntax error. When the prefix closed with
  \<^verbatim>\<open>}\<close> decodes, \<open>ParseOCIState\<close> returns for the payload the id and the pid of that
  decoding with a nil error, which is what it returns for the closed prefix itself.
\<close>

theorem ParseOCIState_recovers_prefix:
  assumes "stateBuf = p @ annotations_marker @ rest"
      and "\<not> sublist annotations_marker rest"
      and "parse_json stateBuf = None"
      and "json_Unmarshal_State (p @ ''}'') State0 = (None, st)"
  shows "ParseOCIState stateBuf = (ID st, Pid st, None)
         \<and> ParseOCIState (p @ ''}'') = (ID st, Pid st, None)"
proof -
  from assms(3) have first: "json_Unmarshal_State stateBuf State0 = (Some SyntaxError, State0)"
    by (simp add: json_Unmarshal_State_def)
  from assms(1,2) have "fix_FindStringSubmatch stateBuf = [stateBuf, p]"
    by (rule FindStringSubmatch_last_marker)
  with first assms(4) have "ParseOCIState stateBuf = (ID st, Pid st, None)"
    by (simp add: ParseOCIState_def)
  moreover from assms(4) have "ParseOCIState (p @ ''}'') = (ID st, Pid st, None)"
    by (rule ParseOCIState_decoded)
  ultimately show ?thesis by simp
qed

theorem ParseOCIState_recovers_prefix_witness:
  \<open>ParseOCIState ''{"id":"abc","pid":123,"annotations":{"a":b}}'' = (''abc'', 123, None)
   \<and> ParseOCIState ''{"id":"abc","pid":123}'' = (''abc'', 123, None)\<close>
proof -
  have a: \<open>''{"id":"abc","pid":123,"annotations":{"a":b}}'' =
             ''{"id":"abc","pid":123'' @ annotations_marker @ ''{"a":b}}''\<close>
    by (simp add: annotations_marker_def)
  have b: \<open>\<not> sublist annotations_marker ''{"a":b}}''\<close>
    by code_simp
  have c: \<open>parse_json ''{"id":"abc","pid":123,"annotations":{"a":b}}'' = None\<close>
    by code_simp
  have d: \<open>json_Unmarshal_State (''{"id":"abc","pid":123'' @ ''}'') State0 =
             (None, State0\<lparr>ID := ''abc'', Pid := 123\<rparr>)\<close>
    by code_simp
  from ParseOCIState_recovers_prefix [OF a b c d] show ?thesis
    by (simp add: State0_def)
qed

text \<open>
  C2 as stated fails when the malformed part holds \<^verbatim>\<open>,"annotations":\<close> again: the
  pattern cuts at the last one, the text before it does not decode once closed, and the
  call fails, while the prefix before the first one decodes to the id \<^verbatim>\<open>abc\<close> and the
  pid 123. It also fails when the payload is well-formed JSON and the strict decoding
  fails on the type of an annotation: the first decoding has stored the members that
  follow, and the id \<^verbatim>\<open>zzz\<close> stays where the closed prefix has no id.
\<close>

theorem ParseOCIState_recovers_prefix_counterexample:
  \<open>''{"id":"abc","pid":123,"annotations":{"a":b,"annotations":c}}'' =
      ''{"id":"abc","pid":123'' @ '',"annotations":'' @ ''{"a":b,"annotations":c}}''
   \<and> fst (json_Unmarshal_State
        ''{"id":"abc","pid":123,"annotations":{"a":b,"annotations":c}}'' State0)
      = Some SyntaxError
   \<and> ParseOCIState (''{"id":"abc","pid":123'' @ ''}'') = (''abc'', 123, None)
   \<and> ParseOCIState ''{"id":"abc","pid":123,"annotations":{"a":b,"annotations":c}}'' =
       ('''', 0,
        Some (UnparseableState SyntaxError
          ''{"id":"abc","pid":123,"annotations":{"a":b,"annotations":c}}''))
   \<and> ''{"pid":1,"annotations":{"a":1},"id":"zzz"}'' =
        ''{"pid":1'' @ '',"annotations":'' @ ''{"a":1},"id":"zzz"}''
   \<and> fst (json_Unmarshal_State ''{"pid":1,"annotations":{"a":1},"id":"zzz"}'' State0)
      = Some (UnmarshalTypeError ''number'' ''string'')
   \<and> ParseOCIState (''{"pid":1'' @ ''}'') = ('''', 1, None)
   \<and> ParseOCIState ''{"pid":1,"annotations":{"a":1},"id":"zzz"}'' = (''zzz'', 1, None)\<close>
  by code_simp

text \<open>
  C10. When the strict decoding succeeds, \<open>ParseOCIState\<close> returns the id and the pid of
  the decoded state with a nil error, whatever they are: for an object with no member
  named \<^verbatim>\<open>id\<close> the id is empty, with no member named \<^verbatim>\<open>pid\<close> the pid is 0, and an
  empty id, a zero pid or a negative pid in the payload are returned as they are.
\<close>

theorem ParseOCIState_no_validation:
  \<open>(fst (json_Unmarshal_State stateBuf State0) = None \<longrightarrow>
      ParseOCIState stateBuf =
        (ID (snd (json_Unmarshal_State stateBuf State0)),
         Pid (snd (json_Unmarshal_State stateBuf State0)), None))
   \<and> (parse_json stateBuf = Some (JObject ms)
        \<and> fst (json_Unmarshal_State stateBuf State0) = None \<longrightarrow>
      snd (snd (ParseOCIState stateBuf)) = None
      \<and> ((\<forall>kv \<in> set ms. \<not> fieldMatches ''id'' (fst kv)) \<longrightarrow> fst (ParseOCIState stateBuf) = '''')
      \<and> ((\<forall>kv \<in> set ms. \<not> fieldMatches ''pid'' (fst kv))
            \<longrightarrow> fst (snd (ParseOCIState stateBuf)) = 0))
   \<and> ParseOCIState ''{}'' = ('''', 0, None)
   \<and> ParseOCIState ''{"id":"","pid":0}'' = ('''', 0, None)
   \<and> ParseOCIState ''{"id":"abc","pid":-5}'' = (''abc'', - 5, None)\<close>
proof -
  have ok: "ParseOCIState stateBuf =
        (ID (snd (json_Unmarshal_State stateBuf State0)),
         Pid (snd (json_Unmarshal_State stateBuf State0)), None)"
    if "fst (json_Unmarshal_State stateBuf State0) = None"
    using that ParseOCIState_decoded [of stateBuf "snd (json_Unmarshal_State stateBuf State0)"]
    by (simp add: prod_eq_iff)
  have st: "snd (json_Unmarshal_State stateBuf State0) =
              fst (foldl store_State_member (State0, None) ms)"
    if "parse_json stateBuf = Some (JObject ms)"
    using that by (simp add: json_Unmarshal_State_def split: prod.splits)
  have absent_id: "fst (ParseOCIState stateBuf) = ''''"
    if "parse_json stateBuf = Some (JObject ms)"
      and "fst (json_Unmarshal_State stateBuf State0) = None"
      and "\<forall>kv \<in> set ms. \<not> fieldMatches ''id'' (fst kv)"
    using ok [OF that(2)] st [OF that(1)] foldl_store_State_member_ID [OF that(3)]
    by (simp add: State0_def)
  have absent_pid: "fst (snd (ParseOCIState stateBuf)) = 0"
    if "parse_json stateBuf = Some (JObject ms)"
      and "fst (json_Unmarshal_State stateBuf State0) = None"
      and "\<forall>kv \<in> set ms. \<not> fieldMatches ''pid'' (fst kv)"
    using ok [OF that(2)] st [OF that(1)] foldl_store_State_member_Pid [OF that(3)]
    by (simp add: State0_def)
  have e1: "ParseOCIState ''{}'' = ('''', 0, None)"
    by code_simp
  have e2: \<open>ParseOCIState ''{"id":"","pid":0}'' = ('''', 0, None)\<close>
    by code_simp
  have e3: \<open>ParseOCIState ''{"id":"abc","pid":-5}'' = (''abc'', - 5, None)\<close>
    by code_simp
  show ?thesis
    using ok absent_id absent_pid e1 e2 e3 by simp
qed

theorem ParseOCIState_no_validation_witness:
  \<open>ParseOCIState ''{"status":"created"}'' = ('''', 0, None)\<close>
proof -
  let ?b = \<open>''{"status":"created"}''\<close>
  have a: \<open>parse_json ?b = Some (JObject [(''status'', JString ''created'')])\<close>
    by code_simp
  have b: "fst (json_Unmarshal_State ?b State0) = None"
    by code_simp
  have c: "\<forall>kv \<in> set [(''status'', JString ''created'')]. \<not> fieldMatches ''id'' (fst kv)"
    by code_simp
  have d: "\<forall>kv \<in> set [(''status'', JString ''created'')]. \<not> fieldMatches ''pid'' (fst kv)"
    by code_simp
  from a b c d
    ParseOCIState_no_validation [where stateBuf = ?b and ms = "[(''status'', JString ''created'')]"]
  have "snd (snd (ParseOCIState ?b)) = None" "fst (ParseOCIState ?b) = ''''"
    "fst (snd (ParseOCIState ?b)) = 0"
    by blast+
  then show ?thesis by (simp add: prod_eq_iff)
qed

subsection \<open>The pid of a container\<close>

lemma containerd_prefix_only:
  assumes "HasPrefix containerID ''containerd://''"
  shows "\<not> HasPrefix containerID ''docker://''" and "\<not> HasPrefix containerID ''cri-o://''"
proof -
  from assms obtain r where "containerID = ''containerd://'' @ r"
    by (auto simp: HasPrefix_iff)
  then show "\<not> HasPrefix containerID ''docker://''" and "\<not> HasPrefix containerID ''cri-o://''"
    by (auto simp: HasPrefix_iff)
qed

text \<open>
  C4. For a container id that starts with none of \<^verbatim>\<open>docker://\<close>, \<^verbatim>\<open>cri-o://\<close> and
  \<^verbatim>\<open>containerd://\<close>, \<open>PidFromContainerId\<close> makes no call to the outside, and returns
  the pid -1, which is not positive, and the \<open>UnknownRuntime\<close> error with the id.
\<close>

theorem PidFromContainerId_unknown_runtime:
  assumes "\<not> HasPrefix containerID ''docker://''"
      and "\<not> HasPrefix containerID ''cri-o://''"
      and "\<not> HasPrefix containerID ''containerd://''"
  shows "PidFromContainerId w containerID = ([], - 1, Some (UnknownRuntime containerID))
         \<and> \<not> 0 < fst (snd (PidFromContainerId w containerID))"
  using assms by (simp add: PidFromContainerId_def)

theorem PidFromContainerId_unknown_runtime_witness:
  \<open>PidFromContainerId
     \<lparr>exec_Output = (\<lambda>args. Inr ''[{"State":{"Pid":42}}]''),
      grpc_Dial = (\<lambda>path. None),
      ContainerStatus = (\<lambda>path request. Inr [''pid'' \<mapsto> ''42'', ''info'' \<mapsto> ''{"pid":42}''])\<rparr>
     ''ftp://x'' = ([], - 1, Some (UnknownRuntime ''ftp://x''))\<close>
proof -
  have a: "\<not> HasPrefix ''ftp://x'' ''docker://''"
    and b: "\<not> HasPrefix ''ftp://x'' ''cri-o://''"
    and c: "\<not> HasPrefix ''ftp://x'' ''containerd://''"
    by (simp_all add: HasPrefix_def)
  from PidFromContainerId_unknown_runtime [OF a b c] show ?thesis by blast
qed

text \<open>
  C1, as amended. In the containerd variant, when the runtime answers and the pid decoded
  from the \<^verbatim>\<open>info\<close> entry of its answer is 0, \<open>PidFromContainerId\<close> returns the pid -1
  and the \<open>InvalidPid\<close> error; any other decoded pid, a negative one too, is returned as
  it is with a nil error.
\<close>

theorem PidFromContainerId_containerd_zero_pid:
  assumes "HasPrefix containerID ''containerd://''"
      and "grpc_Dial w CONTAINERD_DEFAULT_SOCKET_PATH = None"
      and "ContainerStatus w CONTAINERD_DEFAULT_SOCKET_PATH
             \<lparr>ContainerId = TrimPrefix containerID ''containerd://'', Verbose = True\<rparr> = Inr info"
      and "info ''info'' = Some s"
      and "json_Unmarshal_Pid s = (None, pid)"
  shows "snd (PidFromContainerId w containerID) =
           (if pid = 0 then (- 1, Some InvalidPid) else (pid, None))"
  using assms containerd_prefix_only [OF assms(1)]
  by (simp add: PidFromContainerId_def getContainerStatus_def Let_def)

theorem PidFromContainerId_containerd_zero_pid_witness:
  \<open>snd (PidFromContainerId
     \<lparr>exec_Output = (\<lambda>args. Inl ''exit status 1''),
      grpc_Dial = (\<lambda>path. None),
      ContainerStatus = (\<lambda>path request. Inr [''info'' \<mapsto> ''{"sandboxID":"s","pid":0}''])\<rparr>
     ''containerd://abc'') = (- 1, Some InvalidPid)\<close>
proof -
  let ?w = \<open>\<lparr>exec_Output = (\<lambda>args. Inl ''exit status 1''),
      grpc_Dial = (\<lambda>path. None),
      ContainerStatus = (\<lambda>path request. Inr [''info'' \<mapsto> ''{"sandboxID":"s","pid":0}''])\<rparr>\<close>
  have a: "HasPrefix ''containerd://abc'' ''containerd://''"
    by (simp add: HasPrefix_def)
  have b: "grpc_Dial ?w CONTAINERD_DEFAULT_SOCKET_PATH = None"
    by simp
  have c: \<open>ContainerStatus ?w CONTAINERD_DEFAULT_SOCKET_PATH
             \<lparr>ContainerId = TrimPrefix ''containerd://abc'' ''containerd://'', Verbose = True\<rparr>
           = Inr [''info'' \<mapsto> ''{"sandboxID":"s","pid":0}'']\<close>
    by simp
  have d: \<open>[''info'' \<mapsto> ''{"sandboxID":"s","pid":0}''] ''info''
           = Some ''{"sandboxID":"s","pid":0}''\<close>
    by simp
  have e: \<open>json_Unmarshal_Pid ''{"sandboxID":"s","pid":0}'' = (None, 0)\<close>
    by code_simp
  from PidFromContainerId_containerd_zero_pid [OF a b c d e] show ?thesis by simp
qed

text \<open>
  C1 as stated fails: no variant rejects a negative pid, and the Docker and CRI-O variants
  return the pid 0 with a nil error.
\<close>

theorem PidFromContainerId_nonpositive_pid_counterexample:
  \<open>snd (PidFromContainerId
     \<lparr>exec_Output = (\<lambda>args. Inr ''[{"State":{"Pid":0}}]''),
      grpc_Dial = (\<lambda>path. None),
      ContainerStatus = (\<lambda>path request. Inr [''pid'' \<mapsto> ''0'', ''info'' \<mapsto> ''{"pid":-5}''])\<rparr>
     ''containerd://abc'') = (- 5, None)
   \<and> snd (PidFromContainerId
     \<lparr>exec_Output = (\<lambda>args. Inr ''[{"State":{"Pid":0}}]''),
      grpc_Dial = (\<lambda>path. None),
      ContainerStatus = (\<lambda>path request. Inr [''pid'' \<mapsto> ''0'', ''info'' \<mapsto> ''{"pid":-5}''])\<rparr>
     ''docker://abc'') = (0, None)
   \<and> snd (PidFromContainerId
     \<lparr>exec_Output = (\<lambda>args. Inr ''[{"State":{"Pid":0}}]''),
      grpc_Dial = (\<lambda>path. None),
      ContainerStatus = (\<lambda>path request. Inr [''pid'' \<mapsto> ''0'', ''info'' \<mapsto> ''{"pid":-5}''])\<rparr>
     ''cri-o://abc'') = (0, None)\<close>
  by code_simp

end
